theory Spec2Isabelle
  imports Complex_Main "HOL-Library.Sublist" "HOL-Library.Product_Lexorder"
begin

section \<open>Exceptions\<close>

text \<open>
  Every \<^verbatim>\<open>raise\<close> of the script and of the library calls it makes is a value of
  \<open>error\<close>; a computation that may raise returns \<open>error + 'a\<close> with \<open>Inl\<close> the
  exception. \<open>KeyboardInterrupt\<close> and \<open>SystemExit\<close> derive from
  \<^verbatim>\<open>BaseException\<close> only; all the others derive from \<^verbatim>\<open>Exception\<close>.
\<close>

datatype error =
    KeyError string
  | TypeError
  | AttributeError
  | IndexError
  | ValueError
  | OverflowError
  | FileNotFoundError
  | OSError
  | RequestException
  | JSONDecodeError
  | KeyboardInterrupt
  | SystemExit


definition bind_r :: "error + 'a \<Rightarrow> ('a \<Rightarrow> error + 'b) \<Rightarrow> error + 'b" where
  "bind_r m f = (case m of Inl e \<Rightarrow> Inl e | Inr v \<Rightarrow> f v)"

section \<open>Text\<close>

text \<open>
  A Python \<^verbatim>\<open>str\<close> is modelled by the bytes of its UTF-8 encoding, as a
  \<open>string\<close>. Searching and replacing substrings agrees on both views, since UTF-8 is
  self-synchronising. Characters outside ASCII are written byte by byte.
\<close>

definition digit_char :: "int \<Rightarrow> char" where
  "digit_char n = ''0123456789'' ! nat (n mod 10)"

text \<open>The decimal digits of a non-negative integer.\<close>

function str_digits :: "int \<Rightarrow> string" where
  "str_digits n =
     (if n < 10 then [digit_char n] else str_digits (n div 10) @ [digit_char n])"
  by pat_completeness auto
termination
  by (relation "measure nat") auto


section \<open>Dates: the part of \<^verbatim>\<open>datetime\<close> that \<^verbatim>\<open>get_week_range\<close> uses\<close>

text \<open>
  A \<^verbatim>\<open>datetime\<close> is represented by its proleptic Gregorian ordinal (the value of
  \<^verbatim>\<open>toordinal()\<close>, day 1 being 0001-01-01) and its time of day; year, month and day
  are read off the ordinal by \<open>ord2ymd\<close>, the library's own conversion. The library
  supports the ordinals \<open>1 .. MAXORDINAL\<close> (0001-01-01 to 9999-12-31).
\<close>

record datetime =
  ordinal :: int
  hour :: nat
  minute :: nat
  second :: nat
  microsecond :: nat

definition MAXORDINAL :: int where
  "MAXORDINAL = 3652059"

definition valid_datetime :: "datetime \<Rightarrow> bool" where
  "valid_datetime dt \<longleftrightarrow>
     1 \<le> ordinal dt \<and> ordinal dt \<le> MAXORDINAL \<and>
     hour dt < 24 \<and> minute dt < 60 \<and> second dt < 60 \<and> microsecond dt < 1000000"

definition is_leap :: "int \<Rightarrow> bool" where
  "is_leap year \<longleftrightarrow> year mod 4 = 0 \<and> (year mod 100 \<noteq> 0 \<or> year mod 400 = 0)"

definition days_before_year :: "int \<Rightarrow> int" where
  "days_before_year year =
     (let y = year - 1 in y * 365 + y div 4 - y div 100 + y div 400)"

definition DAYS_IN_MONTH :: "int list" where
  "DAYS_IN_MONTH = [-1, 31, 28, 31, 30, 31, 30, 31, 31, 30, 31, 30, 31]"

definition DAYS_BEFORE_MONTH :: "int list" where
  "DAYS_BEFORE_MONTH = [-1, 0, 31, 59, 90, 120, 151, 181, 212, 243, 273, 304, 334]"

definition days_before_month :: "int \<Rightarrow> int \<Rightarrow> int" where
  "days_before_month year month =
     DAYS_BEFORE_MONTH ! nat month + (if month > 2 \<and> is_leap year then 1 else 0)"

definition ymd2ord :: "int \<Rightarrow> int \<Rightarrow> int \<Rightarrow> int" where
  "ymd2ord year month day = days_before_year year + days_before_month year month + day"

definition DI400Y :: int where "DI400Y = 146097"
definition DI100Y :: int where "DI100Y = 36524"
definition DI4Y :: int where "DI4Y = 1461"

definition ord2ymd :: "int \<Rightarrow> int \<times> int \<times> int" where
  "ord2ymd n0 =
     (let n = n0 - 1;
          n400 = n div DI400Y; n = n mod DI400Y;
          year = n400 * 400 + 1;
          n100 = n div DI100Y; n = n mod DI100Y;
          n4 = n div DI4Y; n = n mod DI4Y;
          n1 = n div 365; n = n mod 365;
          year = year + n100 * 100 + n4 * 4 + n1
      in if n1 = 4 \<or> n100 = 4 then (year - 1, 12, 31)
         else
           let leapyear = (n1 = 3 \<and> (n4 \<noteq> 24 \<or> n100 = 3));
               month = (n + 50) div 32;
               preceding = DAYS_BEFORE_MONTH ! nat month
                             + (if month > 2 \<and> leapyear then 1 else 0)
           in if preceding > n
              then let month = month - 1;
                       preceding = preceding
                         - (DAYS_IN_MONTH ! nat month
                              + (if month = 2 \<and> leapyear then 1 else 0))
                   in (year, month, n - preceding + 1)
              else (year, month, n - preceding + 1))"

definition year_of :: "datetime \<Rightarrow> int" where
  "year_of dt = fst (ord2ymd (ordinal dt))"

definition month_of :: "datetime \<Rightarrow> int" where
  "month_of dt = fst (snd (ord2ymd (ordinal dt)))"

definition day_of :: "datetime \<Rightarrow> int" where
  "day_of dt = snd (snd (ord2ymd (ordinal dt)))"

text \<open>\<^verbatim>\<open>datetime(year, month, day, hour, minute, second, microsecond)\<close>, for naming
  concrete dates.\<close>

definition mk_datetime :: "int \<Rightarrow> int \<Rightarrow> int \<Rightarrow> nat \<Rightarrow> nat \<Rightarrow> nat \<Rightarrow> nat \<Rightarrow> datetime" where
  "mk_datetime y m d hh mm ss us =
     \<lparr>ordinal = ymd2ord y m d, hour = hh, minute = mm, second = ss, microsecond = us\<rparr>"

text \<open>\<^verbatim>\<open>weekday()\<close>: Monday is 0, Friday is 4.\<close>

definition weekday :: "datetime \<Rightarrow> int" where
  "weekday dt = (ordinal dt + 6) mod 7"

text \<open>\<^verbatim>\<open>dt + timedelta(days=k)\<close>: the time of day is kept, and a result outside the
  supported range raises \<^verbatim>\<open>OverflowError\<close>.\<close>

definition add_days :: "datetime \<Rightarrow> int \<Rightarrow> error + datetime" where
  "add_days dt k =
     (let n = ordinal dt + k
      in if 0 < n \<and> n \<le> MAXORDINAL then Inr (dt\<lparr>ordinal := n\<rparr>) else Inl OverflowError)"

text \<open>Comparison of two \<^verbatim>\<open>datetime\<close>s: lexicographic on date, then time of day.\<close>

definition dt_key :: "datetime \<Rightarrow> int \<times> nat \<times> nat \<times> nat \<times> nat" where
  "dt_key dt = (ordinal dt, hour dt, minute dt, second dt, microsecond dt)"

definition dt_le :: "datetime \<Rightarrow> datetime \<Rightarrow> bool" where
  "dt_le a b \<longleftrightarrow> dt_key a \<le> dt_key b"

definition dt_less :: "datetime \<Rightarrow> datetime \<Rightarrow> bool" where
  "dt_less a b \<longleftrightarrow> dt_key a < dt_key b"

text \<open>\<^verbatim>\<open>strftime\<close> in the C locale (the script never sets another one): \<^verbatim>\<open>%B\<close> is the
  English month name, \<^verbatim>\<open>%d\<close> the day of the month as two digits, zero-padded, and
  \<^verbatim>\<open>%Y\<close> the year in decimal.\<close>

definition month_names :: "string list" where
  "month_names = [''January'', ''February'', ''March'', ''April'', ''May'', ''June'', ''July'',
     ''August'', ''September'', ''October'', ''November'', ''December'']"

definition fmt_B :: "datetime \<Rightarrow> string" where
  "fmt_B dt = month_names ! nat (month_of dt - 1)"

definition fmt_d :: "datetime \<Rightarrow> string" where
  "fmt_d dt = (let d = day_of dt in if d < 10 then CHR ''0'' # str_digits d else str_digits d)"

definition fmt_Y :: "datetime \<Rightarrow> string" where
  "fmt_Y dt = str_digits (year_of dt)"

definition strftime_B_d :: "datetime \<Rightarrow> string" where
  "strftime_B_d dt = fmt_B dt @ '' '' @ fmt_d dt"

definition strftime_B_d_Y :: "datetime \<Rightarrow> string" where
  "strftime_B_d_Y dt = fmt_B dt @ '' '' @ fmt_d dt @ '', '' @ fmt_Y dt"

subsection \<open>\<^verbatim>\<open>get_week_range\<close>\<close>

text \<open>The function reads the clock once (\<^verbatim>\<open>datetime.now()\<close>); the model takes that
  reading as its argument \<open>today\<close>. The three local variables of the source are the
  three definitions below.\<close>

definition days_since_friday :: "datetime \<Rightarrow> int" where
  "days_since_friday today = (weekday today - 4) mod 7"

definition last_friday :: "datetime \<Rightarrow> error + datetime" where
  "last_friday today = add_days today (- days_since_friday today)"

definition next_friday :: "datetime \<Rightarrow> error + datetime" where
  "next_friday today = bind_r (last_friday today) (\<lambda>lf. add_days lf 7)"

definition get_week_range :: "datetime \<Rightarrow> error + string \<times> string" where
  "get_week_range today =
     bind_r (last_friday today) (\<lambda>lf.
     bind_r (add_days lf 7) (\<lambda>nf.
       Inr (strftime_B_d lf, strftime_B_d_Y nf)))"


section \<open>Python values\<close>

text \<open>
  The values that \<^verbatim>\<open>response.json()\<close> can return, and that the script stores and
  formats. A finite \<^verbatim>\<open>float\<close> is given by the rational number it denotes (a literal
  of the source by its decimal value); the three other floats are constructors of their
  own. A dictionary is the list of its items, looked up by key (\<open>map_of\<close>).
\<close>

datatype pyfloat = Fin rat | PosInf | NegInf | NaN

datatype pyval =
    PNone
  | PBool bool
  | PInt int
  | PFloat pyfloat
  | PStr string
  | PList "pyval list"
  | PDict "(string \<times> pyval) list"

text \<open>\<^verbatim>\<open>v[k]\<close> for a string key: only a dictionary can be subscripted by a string.\<close>

fun getitem :: "pyval \<Rightarrow> string \<Rightarrow> error + pyval" where
  "getitem (PDict kvs) k = (case map_of kvs k of None \<Rightarrow> Inl (KeyError k) | Some v \<Rightarrow> Inr v)"
| "getitem _ k = Inl TypeError"

text \<open>\<^verbatim>\<open>v[0]\<close>: the first element of a list or the first character of a string; a
  dictionary read from JSON has string keys only, so \<^verbatim>\<open>0\<close> is a missing key.\<close>

fun getitem0 :: "pyval \<Rightarrow> error + pyval" where
  "getitem0 (PList xs) = (case xs of [] \<Rightarrow> Inl IndexError | x # _ \<Rightarrow> Inr x)"
| "getitem0 (PStr s) = (if s = [] then Inl IndexError else Inr (PStr (take 1 s)))"
| "getitem0 (PDict kvs) = Inl (KeyError ''0'')"
| "getitem0 _ = Inl TypeError"

text \<open>\<^verbatim>\<open>v.get(k, default)\<close>: a method of dictionaries only.\<close>

fun dict_get :: "pyval \<Rightarrow> string \<Rightarrow> pyval \<Rightarrow> error + pyval" where
  "dict_get (PDict kvs) k d = Inr (case map_of kvs k of None \<Rightarrow> d | Some v \<Rightarrow> v)"
| "dict_get _ k d = Inl AttributeError"

definition get2 :: "pyval \<Rightarrow> string \<Rightarrow> string \<Rightarrow> error + pyval" where
  "get2 data k1 k2 = bind_r (getitem data k1) (\<lambda>d. getitem d k2)"

definition get2_default :: "pyval \<Rightarrow> string \<Rightarrow> string \<Rightarrow> pyval \<Rightarrow> error + pyval" where
  "get2_default data k1 k2 dflt = bind_r (getitem data k1) (\<lambda>d. dict_get d k2 dflt)"

subsection \<open>\<^verbatim>\<open>int(v)\<close>\<close>

definition is_digit :: "char \<Rightarrow> bool" where
  "is_digit c \<longleftrightarrow> c \<in> set ''0123456789''"

definition digit_val :: "char \<Rightarrow> nat" where
  "digit_val c = of_char c - 48"

definition is_space :: "char \<Rightarrow> bool" where
  "is_space c \<longleftrightarrow> (let n = (of_char c :: nat) in (9 \<le> n \<and> n \<le> 13) \<or> (28 \<le> n \<and> n \<le> 32))"

definition strip :: "string \<Rightarrow> string" where
  "strip s = rev (dropWhile is_space (rev (dropWhile is_space s)))"

text \<open>Decimal digits, where a single underscore may stand between two digits.\<close>

fun dec_value :: "nat \<Rightarrow> string \<Rightarrow> nat option" where
  "dec_value acc [] = Some acc"
| "dec_value acc (c # cs) =
     (if is_digit c then dec_value (10 * acc + digit_val c) cs
      else if c = CHR ''_'' \<and> cs \<noteq> [] \<and> is_digit (hd cs) then dec_value acc cs
      else None)"

definition parse_nat :: "string \<Rightarrow> nat option" where
  "parse_nat s = (if s \<noteq> [] \<and> is_digit (hd s) then dec_value 0 s else None)"

text \<open>\<^verbatim>\<open>int(s)\<close> for a string: surrounding whitespace is dropped (ASCII whitespace here),
  then an optional sign and the digits.\<close>

definition int_of_str :: "string \<Rightarrow> error + int" where
  "int_of_str s =
     (let t = strip s;
          neg = (t \<noteq> [] \<and> hd t = CHR ''-'');
          body = (if t \<noteq> [] \<and> (hd t = CHR ''-'' \<or> hd t = CHR ''+'') then tl t else t)
      in case parse_nat body of
           None \<Rightarrow> Inl ValueError
         | Some n \<Rightarrow> Inr (if neg then - int n else int n))"

definition trunc :: "rat \<Rightarrow> int" where
  "trunc r = (if 0 \<le> r then \<lfloor>r\<rfloor> else \<lceil>r\<rceil>)"

fun py_int :: "pyval \<Rightarrow> error + int" where
  "py_int (PInt n) = Inr n"
| "py_int (PBool b) = Inr (if b then 1 else 0)"
| "py_int (PFloat (Fin r)) = Inr (trunc r)"
| "py_int (PFloat NaN) = Inl ValueError"
| "py_int (PFloat _) = Inl OverflowError"
| "py_int (PStr s) = int_of_str s"
| "py_int _ = Inl TypeError"

section \<open>Fetching\<close>

text \<open>
  Each fetcher makes one HTTP request and decodes the body as JSON. The model takes the
  outcome of these two library calls as its argument: \<open>Inl e\<close> when
  \<^verbatim>\<open>requests.get\<close> or \<^verbatim>\<open>response.json()\<close> raised \<open>e\<close>, and \<open>Inr data\<close> for the
  decoded value.
\<close>

record price_record =
  price :: pyval
  change_24h :: pyval
  volume_24h :: "pyval option"
  market_cap :: "pyval option"
  ath :: pyval
  atl :: pyval

type_synonym prices = "string \<rightharpoonup> price_record"

definition live_record :: "pyval \<Rightarrow> pyval \<Rightarrow> pyval \<Rightarrow> pyval \<Rightarrow> pyval \<Rightarrow> pyval \<Rightarrow> price_record" where
  "live_record p c v m h l =
     \<lparr>price = p, change_24h = c, volume_24h = Some v, market_cap = Some m, ath = h, atl = l\<rparr>"

definition pls_record :: price_record where
  "pls_record =
     \<lparr>price = PFloat (Fin (89 / 1000000)), change_24h = PFloat (Fin (124 / 10)),
      volume_24h = None, market_cap = None,
      ath = PFloat (Fin (456 / 1000000)), atl = PFloat (Fin (21 / 1000000))\<rparr>"

definition hex_record :: price_record where
  "hex_record =
     \<lparr>price = PFloat (Fin (41 / 10000)), change_24h = PFloat (Fin (87 / 10)),
      volume_24h = None, market_cap = None,
      ath = PFloat (Fin (5701 / 10000)), atl = PFloat (Fin (19 / 100000))\<rparr>"

definition fetch_crypto_prices :: "error + pyval \<Rightarrow> error + prices" where
  "fetch_crypto_prices response =
     bind_r response (\<lambda>data.
     bind_r (get2 data ''bitcoin'' ''usd'') (\<lambda>btc_p.
     bind_r (get2 data ''bitcoin'' ''usd_24h_change'') (\<lambda>btc_c.
     bind_r (get2 data ''bitcoin'' ''usd_24h_vol'') (\<lambda>btc_v.
     bind_r (get2 data ''bitcoin'' ''usd_market_cap'') (\<lambda>btc_m.
     bind_r (get2 data ''ethereum'' ''usd'') (\<lambda>eth_p.
     bind_r (get2 data ''ethereum'' ''usd_24h_change'') (\<lambda>eth_c.
     bind_r (get2 data ''ethereum'' ''usd_24h_vol'') (\<lambda>eth_v.
     bind_r (get2 data ''ethereum'' ''usd_market_cap'') (\<lambda>eth_m.
     bind_r (get2 data ''tether'' ''usd'') (\<lambda>usdt_p.
     bind_r (get2_default data ''tether'' ''usd_24h_change'' (PInt 0)) (\<lambda>usdt_c.
     bind_r (get2 data ''tether'' ''usd_24h_vol'') (\<lambda>usdt_v.
     bind_r (get2 data ''tether'' ''usd_market_cap'') (\<lambda>usdt_m.
     bind_r (get2 data ''dai'' ''usd'') (\<lambda>dai_p.
     bind_r (get2_default data ''dai'' ''usd_24h_change'' (PInt 0)) (\<lambda>dai_c.
     bind_r (get2 data ''dai'' ''usd_24h_vol'') (\<lambda>dai_v.
     bind_r (get2 data ''dai'' ''usd_market_cap'') (\<lambda>dai_m.
       Inr [''btc'' \<mapsto> live_record btc_p btc_c btc_v btc_m (PInt 73750)
           (PFloat (Fin (6781 / 100))),
            ''eth'' \<mapsto> live_record eth_p eth_c eth_v eth_m (PInt 4878)
                (PFloat (Fin (43 / 100))),
            ''usdt'' \<mapsto> live_record usdt_p usdt_c usdt_v usdt_m
                        (PFloat (Fin (132 / 100))) (PFloat (Fin (57 / 100))),
            ''dai'' \<mapsto> live_record dai_p dai_c dai_v dai_m
                        (PFloat (Fin (122 / 100))) (PFloat (Fin (89 / 100))),
            ''pls'' \<mapsto> pls_record,
            ''hex'' \<mapsto> hex_record])))))))))))))))))"

record sentiment =
  fg_value :: int
  fg_classification :: pyval

definition fetch_fear_greed_index :: "error + pyval \<Rightarrow> error + sentiment" where
  "fetch_fear_greed_index response =
     bind_r response (\<lambda>data.
     bind_r (bind_r (getitem data ''data'') getitem0) (\<lambda>item.
     bind_r (getitem item ''value'') (\<lambda>v.
     bind_r (py_int v) (\<lambda>n.
     bind_r (bind_r (getitem data ''data'') getitem0) (\<lambda>item'.
     bind_r (getitem item' ''value_classification'') (\<lambda>c.
       Inr \<lparr>fg_value = n, fg_classification = c\<rparr>))))))"

section \<open>Formatting numbers\<close>

text \<open>\<^verbatim>\<open>x > 0\<close>: numbers compare with \<^verbatim>\<open>0\<close> (a \<^verbatim>\<open>bool\<close> is an \<^verbatim>\<open>int\<close>, and
  \<^verbatim>\<open>nan > 0\<close> is false); anything else raises \<^verbatim>\<open>TypeError\<close>.\<close>

fun py_gt0 :: "pyval \<Rightarrow> error + bool" where
  "py_gt0 (PInt n) = Inr (0 < n)"
| "py_gt0 (PBool b) = Inr b"
| "py_gt0 (PFloat (Fin r)) = Inr (0 < r)"
| "py_gt0 (PFloat PosInf) = Inr True"
| "py_gt0 (PFloat _) = Inr False"
| "py_gt0 _ = Inl TypeError"

fun py_abs :: "pyval \<Rightarrow> error + pyval" where
  "py_abs (PInt n) = Inr (PInt \<bar>n\<bar>)"
| "py_abs (PBool b) = Inr (PInt (if b then 1 else 0))"
| "py_abs (PFloat (Fin r)) = Inr (PFloat (Fin \<bar>r\<bar>))"
| "py_abs (PFloat NaN) = Inr (PFloat NaN)"
| "py_abs (PFloat _) = Inr (PFloat PosInf)"
| "py_abs _ = Inl TypeError"

definition round_half_even :: "rat \<Rightarrow> int" where
  "round_half_even q =
     (let f = \<lfloor>q\<rfloor>; d = q - of_int f
      in if d < 1 / 2 then f else if 1 / 2 < d then f + 1 else if even f then f else f + 1)"

function bit_length :: "int \<Rightarrow> nat" where
  "bit_length n = (if n \<le> 0 then 0 else Suc (bit_length (n div 2)))"
  by pat_completeness auto
termination
  by (relation "measure nat") auto

text \<open>\<^verbatim>\<open>float(n)\<close> for an \<^verbatim>\<open>int\<close>: the nearest double (53 significant bits, ties to
  even), or \<^verbatim>\<open>OverflowError\<close> beyond the range of doubles.\<close>

definition float_of_int :: "int \<Rightarrow> error + pyfloat" where
  "float_of_int n =
     (let a = \<bar>n\<bar>; e = bit_length a - 53;
          m = round_half_even (of_int a / 2 ^ e) * 2 ^ e
      in if 2 ^ 1024 \<le> m then Inl OverflowError
         else Inr (Fin (of_int (if n < 0 then - m else m))))"

text \<open>Thousands separators of the \<^verbatim>\<open>,\<close> option.\<close>

function group3 :: "string \<Rightarrow> string" where
  "group3 ds =
     (if length ds \<le> 3 then ds
      else group3 (take (length ds - 3) ds) @ '','' @ drop (length ds - 3) ds)"
  by pat_completeness auto
termination
  by (relation "measure length") auto

text \<open>The presentation type \<^verbatim>\<open>f\<close> with a precision, for a non-negative value: the
  value is rounded correctly (ties to even) to that many decimals.\<close>

definition fixed_digits :: "bool \<Rightarrow> nat \<Rightarrow> rat \<Rightarrow> string" where
  "fixed_digits comma_flag prec r =
     (let scaled = round_half_even (r * 10 ^ prec);
          ip = str_digits (scaled div 10 ^ prec);
          fp = str_digits (scaled mod 10 ^ prec);
          ip = (if comma_flag then group3 ip else ip)
      in if prec = 0 then ip
         else ip @ ''.'' @ replicate (prec - length fp) (CHR ''0'') @ fp)"

fun fmt_float :: "bool \<Rightarrow> bool \<Rightarrow> nat \<Rightarrow> pyfloat \<Rightarrow> string" where
  "fmt_float plus_flag comma_flag prec (Fin r) =
     (if r < 0 then ''-'' else if plus_flag then ''+'' else []) @ fixed_digits comma_flag prec \<bar>r\<bar>"
| "fmt_float plus_flag comma_flag prec PosInf = (if plus_flag then ''+inf'' else ''inf'')"
| "fmt_float plus_flag comma_flag prec NegInf = ''-inf''"
| "fmt_float plus_flag comma_flag prec NaN = (if plus_flag then ''+nan'' else ''nan'')"

text \<open>\<^verbatim>\<open>format(v, spec)\<close> for the specifications \<^verbatim>\<open>[+][,].Nf\<close> of the script: an
  \<^verbatim>\<open>int\<close> (and so a \<^verbatim>\<open>bool\<close>) is converted to \<^verbatim>\<open>float\<close> first, \<^verbatim>\<open>None\<close> and
  containers have no such format (\<^verbatim>\<open>TypeError\<close>), a string does not know the code
  \<^verbatim>\<open>f\<close> (\<^verbatim>\<open>ValueError\<close>).\<close>

fun to_float :: "pyval \<Rightarrow> error + pyfloat" where
  "to_float (PFloat x) = Inr x"
| "to_float (PInt n) = float_of_int n"
| "to_float (PBool b) = float_of_int (if b then 1 else 0)"
| "to_float (PStr s) = Inl ValueError"
| "to_float _ = Inl TypeError"

definition fmt_f :: "bool \<Rightarrow> bool \<Rightarrow> nat \<Rightarrow> pyval \<Rightarrow> error + string" where
  "fmt_f plus_flag comma_flag prec v =
     bind_r (to_float v) (\<lambda>x. Inr (fmt_float plus_flag comma_flag prec x))"

section \<open>Social media text\<close>

text \<open>The characters outside ASCII that the script's literals use, in UTF-8.\<close>

definition nl :: string where
  "nl = [CHR 0x0A]"

definition en_dash :: string where
  "en_dash = [CHR 0xE2, CHR 0x80, CHR 0x93]"

definition brain :: string where
  "brain = [CHR 0xF0, CHR 0x9F, CHR 0xA7, CHR 0xA0]"

definition fire :: string where
  "fire = [CHR 0xF0, CHR 0x9F, CHR 0x94, CHR 0xA5]"

definition bar_chart :: string where
  "bar_chart = [CHR 0xF0, CHR 0x9F, CHR 0x93, CHR 0x8A]"

definition droplet :: string where
  "droplet = [CHR 0xF0, CHR 0x9F, CHR 0x92, CHR 0xA7]"

definition globe :: string where
  "globe = [CHR 0xF0, CHR 0x9F, CHR 0x8C, CHR 0x8D]"

definition megaphone :: string where
  "megaphone = [CHR 0xF0, CHR 0x9F, CHR 0x93, CHR 0xA3]"

definition point_down :: string where
  "point_down = [CHR 0xF0, CHR 0x9F, CHR 0x91, CHR 0x87]"

definition green_circle :: string where
  "green_circle = [CHR 0xF0, CHR 0x9F, CHR 0x9F, CHR 0xA2]"

definition red_circle :: string where
  "red_circle = [CHR 0xF0, CHR 0x9F, CHR 0x94, CHR 0xB4]"

definition chart_up :: string where
  "chart_up = [CHR 0xF0, CHR 0x9F, CHR 0x93, CHR 0x88]"

definition newspaper :: string where
  "newspaper = [CHR 0xF0, CHR 0x9F, CHR 0x93, CHR 0xB0]"

definition bell :: string where
  "bell = [CHR 0xF0, CHR 0x9F, CHR 0x94, CHR 0x94]"

definition recycle :: string where
  "recycle = [CHR 0xE2, CHR 0x99, CHR 0xBB]"

definition vs16 :: string where
  "vs16 = [CHR 0xEF, CHR 0xB8, CHR 0x8F]"

definition rocket :: string where
  "rocket = [CHR 0xF0, CHR 0x9F, CHR 0x9A, CHR 0x80]"

definition gem :: string where
  "gem = [CHR 0xF0, CHR 0x9F, CHR 0x92, CHR 0x8E]"

definition point_right :: string where
  "point_right = [CHR 0xF0, CHR 0x9F, CHR 0x91, CHR 0x89]"

definition lookup :: "prices \<Rightarrow> string \<Rightarrow> error + price_record" where
  "lookup prices k = (case prices k of None \<Rightarrow> Inl (KeyError k) | Some r \<Rightarrow> Inr r)"

text \<open>\<^verbatim>\<open>os.getenv(name, default)\<close> on the process environment.\<close>

definition getenv_default :: "(string \<rightharpoonup> string) \<Rightarrow> string \<Rightarrow> string \<Rightarrow> string" where
  "getenv_default env name dflt = (case env name of None \<Rightarrow> dflt | Some v \<Rightarrow> v)"

text \<open>The two conditional expressions of the generators: the green circle if
  \<^verbatim>\<open>c > 0\<close> and the red one otherwise, and \<^verbatim>\<open>'up' if c > 0 else 'down'\<close>.\<close>

definition emoji_of :: "pyval \<Rightarrow> error + string" where
  "emoji_of c = bind_r (py_gt0 c) (\<lambda>b. Inr (if b then green_circle else red_circle))"

definition direction_of :: "pyval \<Rightarrow> error + string" where
  "direction_of c = bind_r (py_gt0 c) (\<lambda>b. Inr (if b then ''up'' else ''down''))"

definition header_tweet :: "string \<times> string \<Rightarrow> string" where
  "header_tweet week_range =
     brain @ '' CRYPTO INTEL WEEKLY'' @ nl @ fst week_range @ '' '' @ en_dash @ '' '' @
       snd week_range @ nl @ nl @ ''Your weekly dose of crypto market insights '' @ fire @
       nl @ nl @ bar_chart @ '' Price movements'' @ nl @ droplet @ '' Liquidity flows'' @
       nl @ globe @ '' Global regulations'' @ nl @ megaphone @ '' Top influencer takes'' @
       nl @ nl @ ''Thread below '' @ point_down"

text \<open>The second block; each asset comes with its formatted price, its formatted change
  and its circle.\<close>

type_synonym mover = "string \<times> string \<times> string"

fun price_tweet :: "mover \<Rightarrow> mover \<Rightarrow> mover \<Rightarrow> mover \<Rightarrow> string" where
  "price_tweet (btc_price, btc_change, btc_emoji)
      (eth_price, eth_change, eth_emoji)
      (pls_price, pls_change, pls_emoji)
      (hex_price, hex_change, hex_emoji) =
     chart_up @ '' PRICE MOVERS'' @ nl @ nl @ ''BTC: $'' @ btc_price @ '' ('' @
       btc_change @ ''%) '' @ btc_emoji @ nl @ ''ETH: $'' @ eth_price @ '' ('' @
       eth_change @ ''%) '' @ eth_emoji @ nl @ ''PLS: $'' @ pls_price @ '' ('' @
       pls_change @ ''%) '' @ pls_emoji @ nl @ ''HEX: $'' @ hex_price @ '' ('' @
       hex_change @ ''%) '' @ hex_emoji @ nl @ nl @ ''#Bitcoin #Ethereum #Crypto''"

declare price_tweet.simps [simp del]

definition cta_tweet :: "string \<Rightarrow> string" where
  "cta_tweet username =
     newspaper @ '' Read the full newsletter with charts & analysis:'' @ nl @
       ''https://'' @ username @ ''.github.io/crypto-intel-weekly'' @ nl @ nl @ bell @
       '' Follow @sanjeev_kumar_c for weekly crypto intelligence'' @ nl @ recycle @ vs16 @
       '' RT to share with your crypto community'' @ nl @ nl @ ''#CryptoNews #Newsletter''"

definition generate_twitter_thread ::
    "(string \<rightharpoonup> string) \<Rightarrow> prices \<Rightarrow> string \<times> string \<Rightarrow> error + string list" where
  "generate_twitter_thread env prices week_range =
     (let tweets = [];
          tweets = tweets @ [header_tweet week_range]
      in bind_r (lookup prices ''btc'') (\<lambda>btc.
         bind_r (emoji_of (change_24h btc)) (\<lambda>btc_emoji.
         bind_r (lookup prices ''eth'') (\<lambda>eth.
         bind_r (emoji_of (change_24h eth)) (\<lambda>eth_emoji.
         bind_r (lookup prices ''pls'') (\<lambda>pls.
         bind_r (emoji_of (change_24h pls)) (\<lambda>pls_emoji.
         bind_r (lookup prices ''hex'') (\<lambda>hex.
         bind_r (emoji_of (change_24h hex)) (\<lambda>hex_emoji.
         bind_r (fmt_f False True 0 (price btc)) (\<lambda>btc_price.
         bind_r (fmt_f True False 1 (change_24h btc)) (\<lambda>btc_change.
         bind_r (fmt_f False True 2 (price eth)) (\<lambda>eth_price.
         bind_r (fmt_f True False 1 (change_24h eth)) (\<lambda>eth_change.
         bind_r (fmt_f False False 6 (price pls)) (\<lambda>pls_price.
         bind_r (fmt_f True False 1 (change_24h pls)) (\<lambda>pls_change.
         bind_r (fmt_f False False 4 (price hex)) (\<lambda>hex_price.
         bind_r (fmt_f True False 1 (change_24h hex)) (\<lambda>hex_change.
           let tweets = tweets @ [price_tweet (btc_price, btc_change, btc_emoji)
               (eth_price, eth_change, eth_emoji)
               (pls_price, pls_change, pls_emoji)
               (hex_price, hex_change, hex_emoji)];
               tweets = tweets @ [cta_tweet (getenv_default env ''GITHUB_USERNAME''
                                              ''your-username'')]
           in Inr tweets)))))))))))))))))"

text \<open>The caption; btc and eth come with direction, absolute change and price, pls and
  hex with direction and absolute change.\<close>

type_synonym mover_word = "string \<times> string"

fun caption_text :: "string \<times> string \<Rightarrow> mover \<Rightarrow> mover \<Rightarrow> mover_word \<Rightarrow> mover_word \<Rightarrow> string"
  where
  "caption_text week_range (btc_dir, btc_abs, btc_price)
      (eth_dir, eth_abs, eth_price)
      (pls_dir, pls_abs)
      (hex_dir, hex_abs) =
     brain @ '' CRYPTO INTEL WEEKLY | '' @ fst week_range @ '' '' @ en_dash @ '' '' @
       snd week_range @ nl @ nl @ ''This week in crypto:'' @ nl @ chart_up @ '' BTC '' @
       btc_dir @ '' '' @ btc_abs @ ''% to $'' @ btc_price @ nl @ chart_up @ '' ETH '' @
       eth_dir @ '' '' @ eth_abs @ ''% to $'' @ eth_price @ nl @ rocket @ '' PLS '' @
       pls_dir @ '' '' @ pls_abs @ ''%'' @ nl @ gem @ '' HEX '' @ hex_dir @ '' '' @
       hex_abs @ ''%'' @ nl @ nl @ ''Swipe '' @ point_right @
       '' for detailed charts, data & analysis'' @ nl @ nl @
       ''Full newsletter: Link in bio'' @ nl @ nl @ ''---'' @ nl @ nl @
       ''#CryptoNews #Bitcoin #Ethereum #PulseChain #HEX #DeFi #CryptoTrading #Web3 #Blockchain #CryptoNewsletter #CryptoIntel #CryptoAnalysis #BTC #ETH #Stablecoins #CryptoMarket #DigitalAssets'' @
       nl @ nl @ ''Drop a '' @ fire @ '' if you found this useful!''"

declare caption_text.simps [simp del]

definition abs_fmt :: "pyval \<Rightarrow> error + string" where
  "abs_fmt c = bind_r (py_abs c) (\<lambda>a. fmt_f False False 1 a)"

text \<open>The process environment is handed to both generators; this one never reads
  it.\<close>

definition generate_instagram_caption ::
    "(string \<rightharpoonup> string) \<Rightarrow> prices \<Rightarrow> string \<times> string \<Rightarrow> error + string" where
  "generate_instagram_caption env prices week_range =
     bind_r (lookup prices ''btc'') (\<lambda>btc.
     bind_r (direction_of (change_24h btc)) (\<lambda>btc_dir.
     bind_r (abs_fmt (change_24h btc)) (\<lambda>btc_abs.
     bind_r (fmt_f False True 0 (price btc)) (\<lambda>btc_price.
     bind_r (lookup prices ''eth'') (\<lambda>eth.
     bind_r (direction_of (change_24h eth)) (\<lambda>eth_dir.
     bind_r (abs_fmt (change_24h eth)) (\<lambda>eth_abs.
     bind_r (fmt_f False True 2 (price eth)) (\<lambda>eth_price.
     bind_r (lookup prices ''pls'') (\<lambda>pls.
     bind_r (direction_of (change_24h pls)) (\<lambda>pls_dir.
     bind_r (abs_fmt (change_24h pls)) (\<lambda>pls_abs.
     bind_r (lookup prices ''hex'') (\<lambda>hex.
     bind_r (direction_of (change_24h hex)) (\<lambda>hex_dir.
     bind_r (abs_fmt (change_24h hex)) (\<lambda>hex_abs.
       Inr (caption_text week_range (btc_dir, btc_abs, btc_price)
           (eth_dir, eth_abs, eth_price)
           (pls_dir, pls_abs)
           (hex_dir, hex_abs))))))))))))))))"

section \<open>Rendering\<close>














section \<open>The run\<close>

text \<open>
  What a run does beyond computing values is kept in a record of effects: what it
  printed, the HTTP requests it sent and the files it wrote. What the outside gives a
  run is a \<open>world\<close>: the outcome of each request and of each file operation, the clock
  and the process environment. A step is a function from the effects so far to a result
  (a value or a raised exception) and the effects after it.
\<close>

datatype printed = Line string | ErrorReport error | Traceback error

record request =
  req_method :: string
  req_url :: string
  req_params :: "(string \<times> string) list"
  req_headers :: "(string \<times> string) list"
  req_json :: "(string \<times> pyval) list"

record effects =
  stdout :: "printed list"
  network :: "request list"
  files :: "(string \<times> string) list"


type_synonym 'a io = "effects \<Rightarrow> (error + 'a) \<times> effects"
























subsection \<open>\<^verbatim>\<open>deploy_to_github\<close>\<close>










subsection \<open>\<^verbatim>\<open>save_twitter_content\<close>\<close>




subsection \<open>\<^verbatim>\<open>main\<close>\<close>











text \<open>The recursive equations are unfolded on demand only.\<close>

declare str_digits.simps [simp del]

declare bit_length.simps [simp del]

declare group3.simps [simp del]


subsection \<open>Sample responses\<close>

definition sample_prices_json :: pyval where
  "sample_prices_json = PDict [
     (''bitcoin'', PDict [(''usd'', PInt 67000), (''usd_24h_change'', PFloat (Fin (- 32 / 10))),
        (''usd_24h_vol'', PInt 31000000000), (''usd_market_cap'', PInt 1320000000000)]),
     (''ethereum'', PDict [(''usd'', PFloat (Fin (350055 / 100))), (''usd_24h_change'', PFloat (Fin 5)),
        (''usd_24h_vol'', PInt 15000000000), (''usd_market_cap'', PInt 420000000000)]),
     (''tether'', PDict [(''usd'', PInt 1),
        (''usd_24h_vol'', PInt 50000000000), (''usd_market_cap'', PInt 110000000000)]),
     (''dai'', PDict [(''usd'', PInt 1), (''usd_24h_change'', PFloat (Fin 0)),
        (''usd_24h_vol'', PInt 200000000), (''usd_market_cap'', PInt 5000000000)])]"

definition sample_prices :: prices where
  "sample_prices =
     [''btc'' \<mapsto> live_record (PInt 67000) (PFloat (Fin (- 32 / 10))) (PInt 31000000000)
                  (PInt 1320000000000) (PInt 73750) (PFloat (Fin (6781 / 100))),
      ''eth'' \<mapsto> live_record (PFloat (Fin (350055 / 100)))
          (PFloat (Fin 5))
          (PInt 15000000000)
                  (PInt 420000000000) (PInt 4878) (PFloat (Fin (43 / 100))),
      ''usdt'' \<mapsto> live_record (PInt 1) (PInt 0) (PInt 50000000000)
                  (PInt 110000000000) (PFloat (Fin (132 / 100))) (PFloat (Fin (57 / 100))),
      ''dai'' \<mapsto> live_record (PInt 1) (PFloat (Fin 0)) (PInt 200000000)
                  (PInt 5000000000) (PFloat (Fin (122 / 100))) (PFloat (Fin (89 / 100))),
      ''pls'' \<mapsto> pls_record,
      ''hex'' \<mapsto> hex_record]"

definition sample_fng_json :: pyval where
  "sample_fng_json = PDict [(''name'', PStr ''Fear and Greed Index''),
     (''data'', PList [PDict [(''value'', PStr ''25''),
                              (''value_classification'', PStr ''Extreme Fear''),
                              (''timestamp'', PStr ''1730678400'')]])]"

definition week_sample :: "string \<times> string" where
  "week_sample = (''March 05'', ''March 12, 2021'')"

definition null_change_prices :: prices where
  "null_change_prices = sample_prices(''btc'' \<mapsto>
     live_record (PInt 67000) PNone (PInt 31000000000) (PInt 1320000000000)
       (PInt 73750) (PFloat (Fin (6781 / 100))))"

definition boundary_prices :: prices where
  "boundary_prices = sample_prices(''pls'' \<mapsto> pls_record\<lparr>change_24h := PFloat (Fin 0)\<rparr>)"

subsection \<open>Sample runs\<close>









section \<open>The week range\<close>

lemma days_since_friday_range:
  "0 \<le> days_since_friday today \<and> days_since_friday today \<le> 6"
  unfolding days_since_friday_def by simp

lemma last_friday_ok:
  assumes "5 \<le> ordinal today" and "ordinal today \<le> MAXORDINAL"
  shows "last_friday today = Inr (today\<lparr>ordinal := ordinal today - days_since_friday today\<rparr>)"
proof -
  have "0 < ordinal today - days_since_friday today"
    using assms(1) unfolding days_since_friday_def weekday_def by presburger
  moreover have "ordinal today - days_since_friday today \<le> MAXORDINAL"
    using assms(2) days_since_friday_range [of today] by linarith
  ultimately show ?thesis
    unfolding last_friday_def add_days_def by (simp add: Let_def)
qed

lemma friday_plus7:
  assumes "5 \<le> ordinal today" and "ordinal today < MAXORDINAL"
  shows "ordinal today - days_since_friday today + 7 \<le> MAXORDINAL"
  using assms unfolding days_since_friday_def weekday_def MAXORDINAL_def by presburger

lemma week_range_ok:
  assumes "5 \<le> ordinal today" and "ordinal today < MAXORDINAL"
  shows "\<exists>start end. last_friday today = Inr start \<and> next_friday today = Inr end \<and>
       ordinal start = ordinal today - days_since_friday today \<and>
       weekday start = 4 \<and>
       dt_le start today \<and> dt_less today end \<and>
       add_days start 7 = Inr end \<and> ordinal end = ordinal start + 7 \<and>
       get_week_range today = Inr (strftime_B_d start, strftime_B_d_Y end)"
proof -
  define k where "k = days_since_friday today"
  define start where "start = today\<lparr>ordinal := ordinal today - k\<rparr>"
  define stop where "stop = start\<lparr>ordinal := ordinal start + 7\<rparr>"
  have k: "0 \<le> k" "k \<le> 6"
    using days_since_friday_range [of today] by (simp_all add: k_def)
  have lf: "last_friday today = Inr start"
    using last_friday_ok [of today] assms by (simp add: start_def k_def)
  have "0 < ordinal start + 7" "ordinal start + 7 \<le> MAXORDINAL"
    using friday_plus7 [OF assms] assms(1) k by (simp_all add: start_def k_def)
  then have nf: "add_days start 7 = Inr stop"
    unfolding add_days_def stop_def by (simp add: Let_def)
  have wd: "weekday start = 4"
    unfolding weekday_def start_def k_def days_since_friday_def by simp presburger
  have le: "dt_le start today"
    using k unfolding dt_le_def dt_key_def start_def by (simp add: less_eq_prod_def)
  have less: "dt_less today stop"
    using k unfolding dt_less_def dt_key_def start_def stop_def by (simp add: less_prod_def)
  have gw: "get_week_range today = Inr (strftime_B_d start, strftime_B_d_Y stop)"
    unfolding get_week_range_def by (simp add: lf nf bind_r_def)
  have nf': "next_friday today = Inr stop"
    unfolding next_friday_def by (simp add: lf nf bind_r_def)
  have "ordinal start = ordinal today - k" "ordinal stop = ordinal start + 7"
    by (simp_all add: start_def stop_def)
  with lf nf nf' wd le less gw show ?thesis
    unfolding k_def by blast
qed

text \<open>The only dates on which the function raises: the first four days of year 1 (the
  Friday before them does not exist) and 9999-12-31 (a Friday; the next one does not
  exist).\<close>

lemma week_range_fails_iff:
  assumes "valid_datetime today"
  shows "get_week_range today = Inl OverflowError
           \<longleftrightarrow> ordinal today < 5 \<or> ordinal today = MAXORDINAL"
proof (cases "5 \<le> ordinal today \<and> ordinal today < MAXORDINAL")
  case True
  with week_range_ok [of today] show ?thesis by auto
next
  case False
  then consider "ordinal today < 5" | "ordinal today = MAXORDINAL"
    using assms unfolding valid_datetime_def by linarith
  then show ?thesis
  proof cases
    case 1
    then have "\<not> 0 < ordinal today - days_since_friday today"
      using assms unfolding valid_datetime_def days_since_friday_def weekday_def by presburger
    then show ?thesis using 1
      unfolding get_week_range_def last_friday_def add_days_def by (simp add: bind_r_def Let_def)
  next
    case 2
    then have "days_since_friday today = 0"
      unfolding days_since_friday_def weekday_def MAXORDINAL_def by simp
    then show ?thesis using 2
      unfolding get_week_range_def last_friday_def add_days_def
      by (simp add: bind_r_def Let_def MAXORDINAL_def)
  qed
qed

text \<open>
  Claim C1, as the code has it. For every current date from 0001-01-05 to 9999-12-30 the
  offset \<open>(weekday - 4) mod 7\<close> lies in \<open>[0, 6]\<close>, the start is the current moment moved
  back by that many days (a Friday, \<open>start \<le> today < start + 7 days\<close>), the end is the
  start plus seven days, and the function returns the two labels without raising. The
  offset bound holds for every date. Outside that range of dates the \<^verbatim>\<open>datetime\<close>
  arithmetic raises \<^verbatim>\<open>OverflowError\<close>, so the function is not total
  (\<open>week_range_overflow\<close>).
\<close>

theorem week_range_window:
  assumes "valid_datetime today" and "5 \<le> ordinal today" and "ordinal today < MAXORDINAL"
  shows "0 \<le> days_since_friday today \<and> days_since_friday today \<le> 6 \<and>
    (\<exists>start end. last_friday today = Inr start \<and> next_friday today = Inr end \<and>
       ordinal start = ordinal today - days_since_friday today \<and>
       weekday start = 4 \<and>
       dt_le start today \<and> dt_less today end \<and>
       add_days start 7 = Inr end \<and> ordinal end = ordinal start + 7 \<and>
       get_week_range today = Inr (strftime_B_d start, strftime_B_d_Y end))"
  using days_since_friday_range [of today] week_range_ok [OF assms(2,3)] by blast

theorem week_range_window_witness:
  "valid_datetime (mk_datetime 2021 3 10 9 30 0 0) \<and>
   days_since_friday (mk_datetime 2021 3 10 9 30 0 0) = 5 \<and>
   get_week_range (mk_datetime 2021 3 10 9 30 0 0) = Inr (''March 05'', ''March 12, 2021'') \<and>
   (\<exists>start end. last_friday (mk_datetime 2021 3 10 9 30 0 0) = Inr start \<and>
      add_days start 7 = Inr end \<and>
      dt_le start (mk_datetime 2021 3 10 9 30 0 0) \<and>
      dt_less (mk_datetime 2021 3 10 9 30 0 0) end)"
proof -
  let ?d = "mk_datetime 2021 3 10 9 30 0 0"
  have o: "ymd2ord 2021 3 10 = 737859" by code_simp
  have h1: "valid_datetime ?d"
    by (simp add: valid_datetime_def mk_datetime_def o MAXORDINAL_def)
  have h2: "5 \<le> ordinal ?d" by (simp add: mk_datetime_def o)
  have h3: "ordinal ?d < MAXORDINAL" by (simp add: mk_datetime_def o MAXORDINAL_def)
  have e1: "days_since_friday ?d = 5" by code_simp
  have e2: "get_week_range ?d = Inr (''March 05'', ''March 12, 2021'')" by code_simp
  from week_range_window [OF h1 h2 h3] h1 e1 e2 show ?thesis by blast
qed

text \<open>On 9999-12-31, a Friday, the offset is 0, the start is the day itself and the end,
  seven days later, is out of range: the function raises.\<close>

theorem week_range_overflow:
  "valid_datetime (mk_datetime 9999 12 31 9 30 0 0) \<and>
   ord2ymd (ordinal (mk_datetime 9999 12 31 9 30 0 0)) = (9999, 12, 31) \<and>
   days_since_friday (mk_datetime 9999 12 31 9 30 0 0) = 0 \<and>
   last_friday (mk_datetime 9999 12 31 9 30 0 0) = Inr (mk_datetime 9999 12 31 9 30 0 0) \<and>
   get_week_range (mk_datetime 9999 12 31 9 30 0 0) = Inl OverflowError"
proof -
  have o: "ymd2ord 9999 12 31 = 3652059" by code_simp
  have "valid_datetime (mk_datetime 9999 12 31 9 30 0 0)"
    by (simp add: valid_datetime_def mk_datetime_def o MAXORDINAL_def)
  moreover have "ord2ymd (ordinal (mk_datetime 9999 12 31 9 30 0 0)) = (9999, 12, 31)"
    by code_simp
  moreover have "days_since_friday (mk_datetime 9999 12 31 9 30 0 0) = 0"
    by code_simp
  moreover have "last_friday (mk_datetime 9999 12 31 9 30 0 0)
                   = Inr (mk_datetime 9999 12 31 9 30 0 0)"
    by code_simp
  moreover have "get_week_range (mk_datetime 9999 12 31 9 30 0 0) = Inl OverflowError"
    by code_simp
  ultimately show ?thesis by blast
qed

text \<open>
  Claim C4, as the code has it. \<^verbatim>\<open>%d\<close> pads the day to two digits: whenever the day of
  the start date is a single digit, the start label is the month name, a space, the
  character \<open>0\<close> and that digit, and so differs from the unpadded form.
\<close>

theorem start_label_zero_padded:
  assumes "get_week_range today = Inr (start_label, end_label)"
      and "last_friday today = Inr start" and "day_of start < 10"
  shows "start_label = fmt_B start @ '' 0'' @ [digit_char (day_of start)] \<and>
         start_label \<noteq> fmt_B start @ '' '' @ [digit_char (day_of start)]"
proof -
  have "str_digits (day_of start) = [digit_char (day_of start)]"
    using assms(3) by (subst str_digits.simps) simp
  then have d: "fmt_d start = [CHR ''0'', digit_char (day_of start)]"
    using assms(3) by (simp add: fmt_d_def Let_def)
  have "start_label = strftime_B_d start"
    using assms(1,2) unfolding get_week_range_def
    by (auto simp add: bind_r_def split: sum.splits)
  then show ?thesis
    by (simp add: strftime_B_d_def d)
qed

theorem start_label_zero_padded_witness:
  "get_week_range (mk_datetime 2024 3 1 9 30 0 0) = Inr (''March 01'', ''March 08, 2024'') \<and>
   last_friday (mk_datetime 2024 3 1 9 30 0 0) = Inr (mk_datetime 2024 3 1 9 30 0 0) \<and>
   day_of (mk_datetime 2024 3 1 9 30 0 0) = 1 \<and>
   ''March 01'' = fmt_B (mk_datetime 2024 3 1 9 30 0 0) @ '' 0''
       @ [digit_char (day_of (mk_datetime 2024 3 1 9 30 0 0))]"
proof -
  let ?d = "mk_datetime 2024 3 1 9 30 0 0"
  have g: "get_week_range ?d = Inr (''March 01'', ''March 08, 2024'')" by code_simp
  have l: "last_friday ?d = Inr ?d" by code_simp
  have d: "day_of ?d = 1" by code_simp
  from start_label_zero_padded [OF g l] d g l show ?thesis by simp
qed

text \<open>On Wednesday 2021-03-10 the start is Friday, March 5, and its label is
  \<open>March 05\<close>, not \<open>March 5\<close>.\<close>

theorem start_label_has_leading_zero:
  "day_of (mk_datetime 2021 3 5 9 30 0 0) = 5 \<and>
   last_friday (mk_datetime 2021 3 10 9 30 0 0) = Inr (mk_datetime 2021 3 5 9 30 0 0) \<and>
   get_week_range (mk_datetime 2021 3 10 9 30 0 0) = Inr (''March 05'', ''March 12, 2021'') \<and>
   ''March 05'' \<noteq> ''March 5''"
proof -
  have "day_of (mk_datetime 2021 3 5 9 30 0 0) = 5" by code_simp
  moreover have "last_friday (mk_datetime 2021 3 10 9 30 0 0)
                   = Inr (mk_datetime 2021 3 5 9 30 0 0)" by code_simp
  moreover have "get_week_range (mk_datetime 2021 3 10 9 30 0 0)
                   = Inr (''March 05'', ''March 12, 2021'')" by code_simp
  ultimately show ?thesis by simp
qed

section \<open>The fetchers\<close>

lemma bind_r_Inr: "bind_r m f = Inr y \<longleftrightarrow> (\<exists>x. m = Inr x \<and> f x = Inr y)"
  by (cases m) (simp_all add: bind_r_def)

lemma bind_r_Inl: "bind_r m f = Inl e \<longleftrightarrow> m = Inl e \<or> (\<exists>x. m = Inr x \<and> f x = Inl e)"
  by (cases m) (simp_all add: bind_r_def)

lemma fetch_sample_prices: "fetch_crypto_prices (Inr sample_prices_json) = Inr sample_prices"
  by (simp add: fetch_crypto_prices_def sample_prices_json_def sample_prices_def
        get2_def get2_default_def bind_r_def)

text \<open>
  Claim C8. Whenever \<^verbatim>\<open>fetch_crypto_prices\<close> returns, whatever the response was, the
  mapping has exactly the six symbols btc, eth, usdt, dai, pls and hex, and the records
  of pls and hex are the two constants of the source.
\<close>

theorem fetch_crypto_prices_placeholders:
  assumes "fetch_crypto_prices response = Inr p"
  shows "dom p = {''btc'', ''eth'', ''usdt'', ''dai'', ''pls'', ''hex''} \<and>
         p ''pls'' = Some pls_record \<and> p ''hex'' = Some hex_record"
proof -
  from assms obtain r1 r2 r3 r4 where
    p: "p = [''btc'' \<mapsto> r1, ''eth'' \<mapsto> r2, ''usdt'' \<mapsto> r3, ''dai'' \<mapsto> r4,
             ''pls'' \<mapsto> pls_record, ''hex'' \<mapsto> hex_record]"
    unfolding fetch_crypto_prices_def bind_r_Inr by blast
  show ?thesis unfolding p by auto
qed

theorem fetch_crypto_prices_placeholders_witness:
  "fetch_crypto_prices (Inr sample_prices_json) = Inr sample_prices \<and>
   dom sample_prices = {''btc'', ''eth'', ''usdt'', ''dai'', ''pls'', ''hex''} \<and>
   sample_prices ''pls'' = Some pls_record \<and> sample_prices ''hex'' = Some hex_record"
  using fetch_crypto_prices_placeholders [OF fetch_sample_prices] fetch_sample_prices
  by simp

text \<open>
  Claim C9, as the code has it. The reading returned for an accepted response carries
  \<^verbatim>\<open>int(data['data'][0]['value'])\<close>, whatever integer that is, and
  \<^verbatim>\<open>data['data'][0]['value_classification']\<close> unchanged, whatever its JSON type is:
  the function checks neither a range nor a type.
\<close>

theorem fetch_fear_greed_index_reading:
  assumes "fetch_fear_greed_index response = Inr r"
  shows "\<exists>data lst item v. response = Inr data \<and> getitem data ''data'' = Inr lst \<and>
           getitem0 lst = Inr item \<and> getitem item ''value'' = Inr v \<and>
           py_int v = Inr (fg_value r) \<and>
           getitem item ''value_classification'' = Inr (fg_classification r)"
  using assms unfolding fetch_fear_greed_index_def bind_r_Inr by force

lemma fetch_sample_fng:
  "fetch_fear_greed_index (Inr sample_fng_json)
     = Inr \<lparr>fg_value = 25, fg_classification = PStr ''Extreme Fear''\<rparr>"
  by (simp add: fetch_fear_greed_index_def sample_fng_json_def bind_r_def int_of_str_def
        strip_def is_space_def parse_nat_def is_digit_def digit_val_def)

theorem fetch_fear_greed_index_reading_witness:
  "fetch_fear_greed_index (Inr sample_fng_json)
     = Inr \<lparr>fg_value = 25, fg_classification = PStr ''Extreme Fear''\<rparr> \<and>
   (\<exists>data lst item v. Inr sample_fng_json = (Inr data :: error + pyval) \<and>
      getitem data ''data'' = Inr lst \<and> getitem0 lst = Inr item \<and>
      getitem item ''value'' = Inr v \<and> py_int v = Inr 25 \<and>
      getitem item ''value_classification'' = Inr (PStr ''Extreme Fear''))"
  using fetch_fear_greed_index_reading [OF fetch_sample_fng] fetch_sample_fng
  by simp

text \<open>The response \<^verbatim>\<open>{"data": [{"value": "150", "value_classification": null}]}\<close> is
  accepted: the reading has the value 150, outside 0..100, and a label that is no
  string.\<close>

theorem fetch_fear_greed_index_unchecked:
  "fetch_fear_greed_index
     (Inr (PDict [(''data'', PList [PDict [(''value'', PStr ''150''),
                                           (''value_classification'', PNone)]])]))
     = Inr \<lparr>fg_value = 150, fg_classification = PNone\<rparr> \<and>
   \<not> (150 \<le> (100 :: int)) \<and> (\<forall>s. PNone \<noteq> PStr s)"
  by (simp add: fetch_fear_greed_index_def bind_r_def int_of_str_def
        strip_def is_space_def parse_nat_def is_digit_def digit_val_def)

section \<open>The social media generators\<close>

lemma lookup_Inr: "lookup prices k = Inr r \<longleftrightarrow> prices k = Some r"
  by (simp add: lookup_def split: option.splits)

lemma twitter_thread_shape:
  assumes "generate_twitter_thread env prices week_range = Inr tweets"
  shows "\<exists>btc eth pls hex btc_price btc_change btc_emoji eth_price eth_change eth_emoji
            pls_price pls_change pls_emoji hex_price hex_change hex_emoji.
     prices ''btc'' = Some btc \<and> prices ''eth'' = Some eth \<and>
     prices ''pls'' = Some pls \<and> prices ''hex'' = Some hex \<and>
     emoji_of (change_24h btc) = Inr btc_emoji \<and> emoji_of (change_24h eth) = Inr eth_emoji \<and>
     emoji_of (change_24h pls) = Inr pls_emoji \<and> emoji_of (change_24h hex) = Inr hex_emoji \<and>
     fmt_f False True 0 (price btc) = Inr btc_price \<and>
     fmt_f True False 1 (change_24h btc) = Inr btc_change \<and>
     fmt_f False True 2 (price eth) = Inr eth_price \<and>
     fmt_f True False 1 (change_24h eth) = Inr eth_change \<and>
     fmt_f False False 6 (price pls) = Inr pls_price \<and>
     fmt_f True False 1 (change_24h pls) = Inr pls_change \<and>
     fmt_f False False 4 (price hex) = Inr hex_price \<and>
     fmt_f True False 1 (change_24h hex) = Inr hex_change \<and>
     tweets = [header_tweet week_range,
               price_tweet (btc_price, btc_change, btc_emoji)
                   (eth_price, eth_change, eth_emoji)
                   (pls_price, pls_change, pls_emoji)
                   (hex_price, hex_change, hex_emoji),
               cta_tweet (getenv_default env ''GITHUB_USERNAME'' ''your-username'')]"
  using assms unfolding generate_twitter_thread_def Let_def bind_r_Inr lookup_Inr
  apply (elim exE conjE)
  apply (intro exI conjI)
                  apply assumption+
  apply simp
  done

lemma caption_shape:
  assumes "generate_instagram_caption env prices week_range = Inr caption"
  shows "\<exists>btc eth pls hex btc_dir btc_abs btc_price eth_dir eth_abs eth_price
            pls_dir pls_abs hex_dir hex_abs.
     prices ''btc'' = Some btc \<and> prices ''eth'' = Some eth \<and>
     prices ''pls'' = Some pls \<and> prices ''hex'' = Some hex \<and>
     direction_of (change_24h btc) = Inr btc_dir \<and> direction_of (change_24h eth) = Inr eth_dir \<and>
     direction_of (change_24h pls) = Inr pls_dir \<and> direction_of (change_24h hex) = Inr hex_dir \<and>
     abs_fmt (change_24h btc) = Inr btc_abs \<and> abs_fmt (change_24h eth) = Inr eth_abs \<and>
     abs_fmt (change_24h pls) = Inr pls_abs \<and> abs_fmt (change_24h hex) = Inr hex_abs \<and>
     fmt_f False True 0 (price btc) = Inr btc_price \<and>
     fmt_f False True 2 (price eth) = Inr eth_price \<and>
     caption = caption_text week_range (btc_dir, btc_abs, btc_price)
         (eth_dir, eth_abs, eth_price)
         (pls_dir, pls_abs)
         (hex_dir, hex_abs)"
  using assms unfolding generate_instagram_caption_def bind_r_Inr lookup_Inr
  apply (elim exE conjE)
  apply (intro exI conjI)
                apply assumption+
  apply simp
  done

lemma emoji_of_cases:
  "emoji_of c = Inr e \<longleftrightarrow>
     (py_gt0 c = Inr True \<and> e = green_circle) \<or> (py_gt0 c = Inr False \<and> e = red_circle)"
  unfolding emoji_of_def bind_r_Inr by auto

lemma direction_of_cases:
  "direction_of c = Inr d \<longleftrightarrow>
     (py_gt0 c = Inr True \<and> d = ''up'') \<or> (py_gt0 c = Inr False \<and> d = ''down'')"
  unfolding direction_of_def bind_r_Inr by auto

lemma map_sum_bind_r: "map_sum id f (bind_r m g) = bind_r m (\<lambda>x. map_sum id f (g x))"
  by (cases m) (simp_all add: bind_r_def)

lemma tw_sample: "generate_twitter_thread Map.empty sample_prices week_sample
  = Inr [header_tweet week_sample,
         price_tweet (''67,000'', ''-3.2'', red_circle)
             (''3,500.55'', ''+5.0'', green_circle)
             (''0.000089'', ''+12.4'', green_circle)
             (''0.0041'', ''+8.7'', green_circle),
         cta_tweet ''your-username'']"
  by code_simp

lemma ig_sample: "generate_instagram_caption Map.empty sample_prices week_sample
  = Inr (caption_text week_sample (''down'', ''3.2'', ''67,000'')
      (''up'', ''5.0'', ''3,500.55'')
      (''up'', ''12.4'')
      (''up'', ''8.7''))"
  by code_simp

text \<open>
  Claim C3. The second block of the thread is the text \<open>PRICE MOVERS\<close> in which each of
  the four lines ends with the green circle exactly when \<^verbatim>\<open>change_24h > 0\<close> holds for
  that asset and with the red circle otherwise; the caption holds, for each asset, the
  word \<open>up\<close> exactly then and \<open>down\<close> otherwise. The comparison is the strict one for
  every float and every integer, so \<open>-3.2\<close> gives red and \<open>down\<close>, \<open>5.0\<close> gives green
  and \<open>up\<close>, and \<open>0.0\<close> gives red and \<open>down\<close>.
\<close>

theorem direction_indicator:
  assumes "generate_twitter_thread env prices week_range = Inr tweets"
      and "generate_instagram_caption env prices week_range = Inr caption"
  shows "(\<exists>btc eth pls hex bp bc ep ec pp pc hp hc ba ea pa ha.
      prices ''btc'' = Some btc \<and> prices ''eth'' = Some eth \<and>
      prices ''pls'' = Some pls \<and> prices ''hex'' = Some hex \<and>
      tweets ! 1 =
        chart_up @ '' PRICE MOVERS'' @ nl @ nl @ ''BTC: $'' @ bp @ '' ('' @
        bc @ ''%) '' @ (if py_gt0 (change_24h btc) = Inr True then green_circle else red_circle) @ nl @ ''ETH: $'' @ ep @ '' ('' @
        ec @ ''%) '' @ (if py_gt0 (change_24h eth) = Inr True then green_circle else red_circle) @ nl @ ''PLS: $'' @ pp @ '' ('' @
        pc @ ''%) '' @ (if py_gt0 (change_24h pls) = Inr True then green_circle else red_circle) @ nl @ ''HEX: $'' @ hp @ '' ('' @
        hc @ ''%) '' @ (if py_gt0 (change_24h hex) = Inr True then green_circle else red_circle) @ nl @ nl @ ''#Bitcoin #Ethereum #Crypto'' \<and>
      caption =
        brain @ '' CRYPTO INTEL WEEKLY | '' @ fst week_range @ '' '' @ en_dash @ '' '' @
        snd week_range @ nl @ nl @ ''This week in crypto:'' @ nl @ chart_up @ '' BTC '' @
        (if py_gt0 (change_24h btc) = Inr True then ''up'' else ''down'') @ '' '' @ ba @ ''% to $'' @ bp @ nl @ chart_up @ '' ETH '' @
        (if py_gt0 (change_24h eth) = Inr True then ''up'' else ''down'') @ '' '' @ ea @ ''% to $'' @ ep @ nl @ rocket @ '' PLS '' @
        (if py_gt0 (change_24h pls) = Inr True then ''up'' else ''down'') @ '' '' @ pa @ ''%'' @ nl @ gem @ '' HEX '' @ (if py_gt0 (change_24h hex) = Inr True then ''up'' else ''down'') @ '' '' @
        ha @ ''%'' @ nl @ nl @ ''Swipe '' @ point_right @
        '' for detailed charts, data & analysis'' @ nl @ nl @
        ''Full newsletter: Link in bio'' @ nl @ nl @ ''---'' @ nl @ nl @
        ''#CryptoNews #Bitcoin #Ethereum #PulseChain #HEX #DeFi #CryptoTrading #Web3 #Blockchain #CryptoNewsletter #CryptoIntel #CryptoAnalysis #BTC #ETH #Stablecoins #CryptoMarket #DigitalAssets'' @
        nl @ nl @ ''Drop a '' @ fire @ '' if you found this useful!'') \<and>
    (\<forall>r. py_gt0 (PFloat (Fin r)) = Inr (0 < r)) \<and>
    (\<forall>n. py_gt0 (PInt n) = Inr (0 < n)) \<and>
    green_circle = [CHR 0xF0, CHR 0x9F, CHR 0x9F, CHR 0xA2] \<and>
    red_circle = [CHR 0xF0, CHR 0x9F, CHR 0x94, CHR 0xB4] \<and>
    emoji_of (PFloat (Fin (- 32 / 10))) = Inr red_circle \<and>
    emoji_of (PFloat (Fin 5)) = Inr green_circle \<and>
    emoji_of (PFloat (Fin 0)) = Inr red_circle \<and>
    direction_of (PFloat (Fin (- 32 / 10))) = Inr ''down'' \<and>
    direction_of (PFloat (Fin 5)) = Inr ''up'' \<and>
    direction_of (PFloat (Fin 0)) = Inr ''down''"
proof -
  from twitter_thread_shape [OF assms(1)]
  obtain btc eth pls hex bp bc be ep ec ee pp pc pe hp hc he
    where t: "prices ''btc'' = Some btc" "prices ''eth'' = Some eth"
        "prices ''pls'' = Some pls" "prices ''hex'' = Some hex"
        "emoji_of (change_24h btc) = Inr be" "emoji_of (change_24h eth) = Inr ee"
        "emoji_of (change_24h pls) = Inr pe" "emoji_of (change_24h hex) = Inr he"
        "fmt_f False True 0 (price btc) = Inr bp" "fmt_f False True 2 (price eth) = Inr ep"
        "tweets = [header_tweet week_range,
                   price_tweet (bp, bc, be) (ep, ec, ee) (pp, pc, pe) (hp, hc, he),
                   cta_tweet (getenv_default env ''GITHUB_USERNAME'' ''your-username'')]"
    by blast
  from caption_shape [OF assms(2)] obtain bd ba bp' ed ea ep' pd pa hd' ha
    where c: "direction_of (change_24h btc) = Inr bd" "direction_of (change_24h eth) = Inr ed"
        "direction_of (change_24h pls) = Inr pd" "direction_of (change_24h hex) = Inr hd'"
        "fmt_f False True 0 (price btc) = Inr bp'" "fmt_f False True 2 (price eth) = Inr ep'"
        "caption = caption_text week_range (bd, ba, bp') (ed, ea, ep') (pd, pa) (hd', ha)"
    using t(1-4) by force
  have e: "be = (if py_gt0 (change_24h btc) = Inr True then green_circle else red_circle)"
      "ee = (if py_gt0 (change_24h eth) = Inr True then green_circle else red_circle)"
      "pe = (if py_gt0 (change_24h pls) = Inr True then green_circle else red_circle)"
      "he = (if py_gt0 (change_24h hex) = Inr True then green_circle else red_circle)"
    using t(5-8) unfolding emoji_of_cases by auto
  have d: "bd = (if py_gt0 (change_24h btc) = Inr True then ''up'' else ''down'')"
      "ed = (if py_gt0 (change_24h eth) = Inr True then ''up'' else ''down'')"
      "pd = (if py_gt0 (change_24h pls) = Inr True then ''up'' else ''down'')"
      "hd' = (if py_gt0 (change_24h hex) = Inr True then ''up'' else ''down'')"
    using c(1-4) unfolding direction_of_cases by auto
  have p: "bp' = bp" "ep' = ep"
    using t(9,10) c(5,6) by simp_all
  have tw: "tweets ! 1 =
        chart_up @ '' PRICE MOVERS'' @ nl @ nl @ ''BTC: $'' @ bp @ '' ('' @
        bc @ ''%) '' @ be @ nl @ ''ETH: $'' @ ep @ '' ('' @
        ec @ ''%) '' @ ee @ nl @ ''PLS: $'' @ pp @ '' ('' @
        pc @ ''%) '' @ pe @ nl @ ''HEX: $'' @ hp @ '' ('' @
        hc @ ''%) '' @ he @ nl @ nl @ ''#Bitcoin #Ethereum #Crypto''"
    unfolding t(11) price_tweet.simps by simp
  have cp: "caption =
        brain @ '' CRYPTO INTEL WEEKLY | '' @ fst week_range @ '' '' @ en_dash @ '' '' @
        snd week_range @ nl @ nl @ ''This week in crypto:'' @ nl @ chart_up @ '' BTC '' @
        bd @ '' '' @ ba @ ''% to $'' @ bp' @ nl @ chart_up @ '' ETH '' @
        ed @ '' '' @ ea @ ''% to $'' @ ep' @ nl @ rocket @ '' PLS '' @
        pd @ '' '' @ pa @ ''%'' @ nl @ gem @ '' HEX '' @ hd' @ '' '' @
        ha @ ''%'' @ nl @ nl @ ''Swipe '' @ point_right @
        '' for detailed charts, data & analysis'' @ nl @ nl @
        ''Full newsletter: Link in bio'' @ nl @ nl @ ''---'' @ nl @ nl @
        ''#CryptoNews #Bitcoin #Ethereum #PulseChain #HEX #DeFi #CryptoTrading #Web3 #Blockchain #CryptoNewsletter #CryptoIntel #CryptoAnalysis #BTC #ETH #Stablecoins #CryptoMarket #DigitalAssets'' @
        nl @ nl @ ''Drop a '' @ fire @ '' if you found this useful!''"
    unfolding c(7) caption_text.simps by simp
  have ex: "\<exists>btc eth pls hex bp bc ep ec pp pc hp hc ba ea pa ha.
      prices ''btc'' = Some btc \<and> prices ''eth'' = Some eth \<and>
      prices ''pls'' = Some pls \<and> prices ''hex'' = Some hex \<and>
      tweets ! 1 =
        chart_up @ '' PRICE MOVERS'' @ nl @ nl @ ''BTC: $'' @ bp @ '' ('' @
        bc @ ''%) '' @ (if py_gt0 (change_24h btc) = Inr True then green_circle else red_circle) @ nl @ ''ETH: $'' @ ep @ '' ('' @
        ec @ ''%) '' @ (if py_gt0 (change_24h eth) = Inr True then green_circle else red_circle) @ nl @ ''PLS: $'' @ pp @ '' ('' @
        pc @ ''%) '' @ (if py_gt0 (change_24h pls) = Inr True then green_circle else red_circle) @ nl @ ''HEX: $'' @ hp @ '' ('' @
        hc @ ''%) '' @ (if py_gt0 (change_24h hex) = Inr True then green_circle else red_circle) @ nl @ nl @ ''#Bitcoin #Ethereum #Crypto'' \<and>
      caption =
        brain @ '' CRYPTO INTEL WEEKLY | '' @ fst week_range @ '' '' @ en_dash @ '' '' @
        snd week_range @ nl @ nl @ ''This week in crypto:'' @ nl @ chart_up @ '' BTC '' @
        (if py_gt0 (change_24h btc) = Inr True then ''up'' else ''down'') @ '' '' @ ba @ ''% to $'' @ bp @ nl @ chart_up @ '' ETH '' @
        (if py_gt0 (change_24h eth) = Inr True then ''up'' else ''down'') @ '' '' @ ea @ ''% to $'' @ ep @ nl @ rocket @ '' PLS '' @
        (if py_gt0 (change_24h pls) = Inr True then ''up'' else ''down'') @ '' '' @ pa @ ''%'' @ nl @ gem @ '' HEX '' @ (if py_gt0 (change_24h hex) = Inr True then ''up'' else ''down'') @ '' '' @
        ha @ ''%'' @ nl @ nl @ ''Swipe '' @ point_right @
        '' for detailed charts, data & analysis'' @ nl @ nl @
        ''Full newsletter: Link in bio'' @ nl @ nl @ ''---'' @ nl @ nl @
        ''#CryptoNews #Bitcoin #Ethereum #PulseChain #HEX #DeFi #CryptoTrading #Web3 #Blockchain #CryptoNewsletter #CryptoIntel #CryptoAnalysis #BTC #ETH #Stablecoins #CryptoMarket #DigitalAssets'' @
        nl @ nl @ ''Drop a '' @ fire @ '' if you found this useful!''"
    using t(1-4) tw [unfolded e] cp [unfolded d p]
    apply (intro exI conjI)
         apply assumption+
    done
  have g: "\<forall>r. py_gt0 (PFloat (Fin r)) = Inr (0 < r)"
    "\<forall>n. py_gt0 (PInt n) = Inr (0 < n)"
    by simp_all
  have k: "green_circle = [CHR 0xF0, CHR 0x9F, CHR 0x9F, CHR 0xA2]"
    "red_circle = [CHR 0xF0, CHR 0x9F, CHR 0x94, CHR 0xB4]"
    by (simp_all add: green_circle_def red_circle_def)
  have v: "emoji_of (PFloat (Fin (- 32 / 10))) = Inr red_circle"
    "emoji_of (PFloat (Fin 5)) = Inr green_circle"
    "emoji_of (PFloat (Fin 0)) = Inr red_circle"
    "direction_of (PFloat (Fin (- 32 / 10))) = Inr ''down''"
    "direction_of (PFloat (Fin 5)) = Inr ''up''"
    "direction_of (PFloat (Fin 0)) = Inr ''down''"
    by (simp_all add: emoji_of_def direction_of_def bind_r_def)
  show ?thesis
    by (intro conjI ex g k v)
qed

text \<open>The generators on records whose changes are \<open>-3.2\<close> (btc), \<open>5.0\<close> (eth), \<open>0.0\<close>
  (pls) and \<open>8.7\<close> (hex): the produced texts, character by character.\<close>

lemma tw_boundary:
  "generate_twitter_thread Map.empty boundary_prices week_sample
     = Inr [header_tweet week_sample,
            chart_up @ '' PRICE MOVERS'' @ nl @ nl @ ''BTC: $'' @ ''67,000'' @ '' ('' @
            ''-3.2'' @ ''%) '' @ red_circle @ nl @ ''ETH: $'' @ ''3,500.55'' @ '' ('' @
            ''+5.0'' @ ''%) '' @ green_circle @ nl @ ''PLS: $'' @ ''0.000089'' @ '' ('' @
            ''+0.0'' @ ''%) '' @ red_circle @ nl @ ''HEX: $'' @ ''0.0041'' @ '' ('' @
            ''+8.7'' @ ''%) '' @ green_circle @ nl @ nl @ ''#Bitcoin #Ethereum #Crypto'',
            cta_tweet ''your-username'']"
  by code_simp

lemma ig_boundary:
  "generate_instagram_caption Map.empty boundary_prices week_sample
     = Inr (
            brain @ '' CRYPTO INTEL WEEKLY | '' @ fst week_sample @ '' '' @ en_dash @ '' '' @
            snd week_sample @ nl @ nl @ ''This week in crypto:'' @ nl @ chart_up @ '' BTC '' @
            ''down'' @ '' '' @ ''3.2'' @ ''% to $'' @ ''67,000'' @ nl @ chart_up @ '' ETH '' @
            ''up'' @ '' '' @ ''5.0'' @ ''% to $'' @ ''3,500.55'' @ nl @ rocket @ '' PLS '' @
            ''down'' @ '' '' @ ''0.0'' @ ''%'' @ nl @ gem @ '' HEX '' @ ''up'' @ '' '' @
            ''8.7'' @ ''%'' @ nl @ nl @ ''Swipe '' @ point_right @
            '' for detailed charts, data & analysis'' @ nl @ nl @
            ''Full newsletter: Link in bio'' @ nl @ nl @ ''---'' @ nl @ nl @
            ''#CryptoNews #Bitcoin #Ethereum #PulseChain #HEX #DeFi #CryptoTrading #Web3 #Blockchain #CryptoNewsletter #CryptoIntel #CryptoAnalysis #BTC #ETH #Stablecoins #CryptoMarket #DigitalAssets'' @
            nl @ nl @ ''Drop a '' @ fire @ '' if you found this useful!'')"
  by code_simp

theorem direction_indicator_witness:
  "generate_twitter_thread Map.empty boundary_prices week_sample
     = Inr [header_tweet week_sample,
            chart_up @ '' PRICE MOVERS'' @ nl @ nl @ ''BTC: $'' @ ''67,000'' @ '' ('' @
            ''-3.2'' @ ''%) '' @ red_circle @ nl @ ''ETH: $'' @ ''3,500.55'' @ '' ('' @
            ''+5.0'' @ ''%) '' @ green_circle @ nl @ ''PLS: $'' @ ''0.000089'' @ '' ('' @
            ''+0.0'' @ ''%) '' @ red_circle @ nl @ ''HEX: $'' @ ''0.0041'' @ '' ('' @
            ''+8.7'' @ ''%) '' @ green_circle @ nl @ nl @ ''#Bitcoin #Ethereum #Crypto'',
            cta_tweet ''your-username''] \<and>
   generate_instagram_caption Map.empty boundary_prices week_sample
     = Inr (
            brain @ '' CRYPTO INTEL WEEKLY | '' @ fst week_sample @ '' '' @ en_dash @ '' '' @
            snd week_sample @ nl @ nl @ ''This week in crypto:'' @ nl @ chart_up @ '' BTC '' @
            ''down'' @ '' '' @ ''3.2'' @ ''% to $'' @ ''67,000'' @ nl @ chart_up @ '' ETH '' @
            ''up'' @ '' '' @ ''5.0'' @ ''% to $'' @ ''3,500.55'' @ nl @ rocket @ '' PLS '' @
            ''down'' @ '' '' @ ''0.0'' @ ''%'' @ nl @ gem @ '' HEX '' @ ''up'' @ '' '' @
            ''8.7'' @ ''%'' @ nl @ nl @ ''Swipe '' @ point_right @
            '' for detailed charts, data & analysis'' @ nl @ nl @
            ''Full newsletter: Link in bio'' @ nl @ nl @ ''---'' @ nl @ nl @
            ''#CryptoNews #Bitcoin #Ethereum #PulseChain #HEX #DeFi #CryptoTrading #Web3 #Blockchain #CryptoNewsletter #CryptoIntel #CryptoAnalysis #BTC #ETH #Stablecoins #CryptoMarket #DigitalAssets'' @
            nl @ nl @ ''Drop a '' @ fire @ '' if you found this useful!'') \<and>
   (\<forall>r. py_gt0 (PFloat (Fin r)) = Inr (0 < r)) \<and>
   emoji_of (PFloat (Fin 0)) = Inr red_circle \<and>
   direction_of (PFloat (Fin 0)) = Inr ''down''"
proof -
  note d = direction_indicator [OF tw_boundary ig_boundary]
  from d have "\<forall>r. py_gt0 (PFloat (Fin r)) = Inr (0 < r)"
    by (elim conjE)
  moreover from d have "emoji_of (PFloat (Fin 0)) = Inr red_circle"
    by (elim conjE)
  moreover from d have "direction_of (PFloat (Fin 0)) = Inr ''down''"
    by (elim conjE)
  ultimately show ?thesis
    by (intro conjI tw_boundary ig_boundary)
qed

text \<open>
  Claim C5, as the code has it. The caption does not depend on the process environment.
  The thread does: its last block holds \<^verbatim>\<open>os.getenv('GITHUB_USERNAME', 'your-username')\<close>.
  Two runs with equal prices and week range give the same thread when the two
  environments agree on that variable, and the same first two blocks in any case.
\<close>

theorem generators_environment:
  "(env1 ''GITHUB_USERNAME'' = env2 ''GITHUB_USERNAME'' \<longrightarrow>
      generate_twitter_thread env1 prices week_range
        = generate_twitter_thread env2 prices week_range) \<and>
   map_sum id (take 2) (generate_twitter_thread env1 prices week_range)
     = map_sum id (take 2) (generate_twitter_thread env2 prices week_range) \<and>
   generate_instagram_caption env1 prices week_range
     = generate_instagram_caption env2 prices week_range"
  by (simp add: generate_twitter_thread_def generate_instagram_caption_def
        getenv_default_def map_sum_bind_r Let_def)

theorem generators_environment_witness:
  "Map.empty ''GITHUB_USERNAME'' = [''HOME'' \<mapsto> ''/root''] ''GITHUB_USERNAME'' \<and>
   generate_twitter_thread Map.empty sample_prices week_sample
     = generate_twitter_thread [''HOME'' \<mapsto> ''/root''] sample_prices week_sample"
  using generators_environment [of Map.empty "[''HOME'' \<mapsto> ''/root'']" sample_prices week_sample]
  by simp

text \<open>With equal prices and week range, the thread generated under
  \<^verbatim>\<open>GITHUB_USERNAME=alice\<close> differs from the one generated without the variable.\<close>

theorem twitter_thread_reads_environment:
  "generate_twitter_thread [''GITHUB_USERNAME'' \<mapsto> ''alice''] sample_prices week_sample
     \<noteq> generate_twitter_thread Map.empty sample_prices week_sample"
  by code_simp

lemma to_float_gt0: "to_float v = Inr x \<Longrightarrow> \<exists>b. py_gt0 v = Inr b"
  by (cases v rule: py_gt0.cases) auto

lemma sublist_step: "sublist xs ys \<Longrightarrow> sublist xs (zs @ ys)"
  by (metis sublist_appendI sublist_def append.assoc)

lemma sublist_base: "sublist xs (xs @ ys)"
  by (metis sublist_appendI append_Nil)

lemma header_has_labels:
  "sublist (fst week_range) (header_tweet week_range) \<and>
   sublist (snd week_range) (header_tweet week_range)"
proof
  show "sublist (fst week_range) (header_tweet week_range)"
    unfolding header_tweet_def
    by (rule sublist_base | rule sublist_step)+
  show "sublist (snd week_range) (header_tweet week_range)"
    unfolding header_tweet_def
    by (rule sublist_base | rule sublist_step)+
qed

text \<open>
  Claim C10, as the code has it. When the records of btc, eth, pls and hex hold numbers
  (values with a \<^verbatim>\<open>float\<close> conversion) as price and 24-hour change, the thread is a
  list of exactly three blocks: the header, which contains both labels of the week
  range, the price block, and the call to action.
\<close>

theorem twitter_thread_three_blocks:
  assumes "prices ''btc'' = Some btc" and "prices ''eth'' = Some eth"
      and "prices ''pls'' = Some pls" and "prices ''hex'' = Some hex"
      and "\<exists>x. to_float (price btc) = Inr x" and "\<exists>x. to_float (change_24h btc) = Inr x"
      and "\<exists>x. to_float (price eth) = Inr x" and "\<exists>x. to_float (change_24h eth) = Inr x"
      and "\<exists>x. to_float (price pls) = Inr x" and "\<exists>x. to_float (change_24h pls) = Inr x"
      and "\<exists>x. to_float (price hex) = Inr x" and "\<exists>x. to_float (change_24h hex) = Inr x"
  shows "\<exists>tweets block. generate_twitter_thread env prices week_range = Inr tweets \<and>
           length tweets = 3 \<and>
           tweets = [header_tweet week_range, block,
                     cta_tweet (getenv_default env ''GITHUB_USERNAME'' ''your-username'')] \<and>
           sublist (fst week_range) (hd tweets) \<and> sublist (snd week_range) (hd tweets)"
proof -
  obtain b1 b2 b3 b4 where g: "py_gt0 (change_24h btc) = Inr b1"
      "py_gt0 (change_24h eth) = Inr b2" "py_gt0 (change_24h pls) = Inr b3"
      "py_gt0 (change_24h hex) = Inr b4"
    using assms(6,8,10,12) to_float_gt0 by meson
  obtain x1 x2 x3 x4 x5 x6 x7 x8 where f: "to_float (price btc) = Inr x1"
      "to_float (change_24h btc) = Inr x2" "to_float (price eth) = Inr x3"
      "to_float (change_24h eth) = Inr x4" "to_float (price pls) = Inr x5"
      "to_float (change_24h pls) = Inr x6" "to_float (price hex) = Inr x7"
      "to_float (change_24h hex) = Inr x8"
    using assms(5-12) by blast
  show ?thesis
    using header_has_labels [of week_range]
    by (simp add: generate_twitter_thread_def lookup_def assms(1-4) emoji_of_def g fmt_f_def f
          bind_r_def Let_def)
qed

theorem twitter_thread_three_blocks_witness:
  "(\<exists>x. to_float (price pls_record) = Inr x) \<and>
   (\<exists>tweets block. generate_twitter_thread Map.empty sample_prices week_sample = Inr tweets \<and>
      length tweets = 3 \<and>
      tweets = [header_tweet week_sample, block, cta_tweet ''your-username''])"
proof -
  have r: "sample_prices ''btc'' = Some (live_record (PInt 67000) (PFloat (Fin (- 32 / 10)))
             (PInt 31000000000) (PInt 1320000000000) (PInt 73750) (PFloat (Fin (6781 / 100))))"
    "sample_prices ''eth'' = Some (live_record (PFloat (Fin (350055 / 100))) (PFloat (Fin 5))
             (PInt 15000000000) (PInt 420000000000) (PInt 4878) (PFloat (Fin (43 / 100))))"
    "sample_prices ''pls'' = Some pls_record" "sample_prices ''hex'' = Some hex_record"
    by (simp_all add: sample_prices_def)
  have i: "float_of_int 67000 = Inr (Fin 67000)"
    by code_simp
  have f: "\<exists>x. to_float (price (live_record (PInt 67000) (PFloat (Fin (- 32 / 10)))
             (PInt 31000000000) (PInt 1320000000000) (PInt 73750) (PFloat (Fin (6781 / 100)))))
             = Inr x"
    "\<exists>x. to_float (change_24h (live_record (PInt 67000) (PFloat (Fin (- 32 / 10)))
             (PInt 31000000000) (PInt 1320000000000) (PInt 73750) (PFloat (Fin (6781 / 100)))))
             = Inr x"
    "\<exists>x. to_float (price (live_record (PFloat (Fin (350055 / 100))) (PFloat (Fin 5))
             (PInt 15000000000) (PInt 420000000000) (PInt 4878) (PFloat (Fin (43 / 100)))))
             = Inr x"
    "\<exists>x. to_float (change_24h (live_record (PFloat (Fin (350055 / 100))) (PFloat (Fin 5))
             (PInt 15000000000) (PInt 420000000000) (PInt 4878) (PFloat (Fin (43 / 100)))))
             = Inr x"
    "\<exists>x. to_float (price pls_record) = Inr x" "\<exists>x. to_float (change_24h pls_record) = Inr x"
    "\<exists>x. to_float (price hex_record) = Inr x" "\<exists>x. to_float (change_24h hex_record) = Inr x"
    by (simp_all add: i live_record_def pls_record_def hex_record_def)
  have c: "\<exists>tweets block.
      generate_twitter_thread Map.empty sample_prices week_sample = Inr tweets \<and>
      length tweets = 3 \<and>
      tweets = [header_tweet week_sample, block,
                cta_tweet (getenv_default Map.empty ''GITHUB_USERNAME'' ''your-username'')] \<and>
      sublist (fst week_sample) (hd tweets) \<and> sublist (snd week_sample) (hd tweets)"
    by (rule twitter_thread_three_blocks [OF r f])
  have g: "getenv_default Map.empty ''GITHUB_USERNAME'' ''your-username'' = ''your-username''"
    by (simp add: getenv_default_def)
  from c f(5) show ?thesis
    unfolding g by blast
qed

text \<open>A mapping with all four records, where the 24-hour change of btc is \<^verbatim>\<open>None\<close>
  (JSON \<^verbatim>\<open>null\<close>): the comparison \<^verbatim>\<open>None > 0\<close> raises and no thread is returned.\<close>

theorem twitter_thread_null_change:
  "null_change_prices ''btc'' \<noteq> None \<and> null_change_prices ''eth'' \<noteq> None \<and>
   null_change_prices ''pls'' \<noteq> None \<and> null_change_prices ''hex'' \<noteq> None \<and>
   generate_twitter_thread Map.empty null_change_prices week_sample = Inl TypeError"
  by code_simp

section \<open>The top level\<close>




















































subsection \<open>Publishing without credentials\<close>




























end
